theory Spec2Isabelle
  imports Main "HOL-Library.Sublist"
begin

section \<open>eCrash: data\<close>

text \<open>
  A shallow embedding of \<^verbatim>\<open>eCrash.c\<close>. The header \<^verbatim>\<open>eCrash.h\<close> is not among the
  sources, so the types it declares are read off the way \<^verbatim>\<open>eCrash.c\<close> and
  \<^verbatim>\<open>ecrash_test.c\<close> use them, and the constants it defines are parameters (the
  record \<open>platform\<close> below).

  A \<^verbatim>\<open>void *\<close> is its address, a natural number: the source compares addresses with
  \<^verbatim>\<open>></\<close> and subtracts a smaller from a larger one, nothing else. A \<^verbatim>\<open>pthread_t\<close> is an
  opaque identity, compared with \<^verbatim>\<open>==\<close>. A C \<^verbatim>\<open>int\<close> is an \<open>int\<close>: no computation of the
  modelled functions comes near the limits of the machine type, save where the text
  says so.
\<close>

type_synonym pointer = nat
type_synonym pthread_t = nat

text \<open>
  Modelled from the spec: \<^verbatim>\<open>eCrashSymbol\<close> is declared in eCrash.h; its two fields are
  those of the initialisers of \<^verbatim>\<open>ecrash_test.c\<close> and of the reads of
  \<^verbatim>\<open>lookupClosestSymbol\<close>. The field \<^verbatim>\<open>function\<close> is written \<open>function_c\<close>.
  An \<^verbatim>\<open>eCrashSymbolTable\<close> (\<^verbatim>\<open>numSymbols\<close> and the array \<^verbatim>\<open>symbols\<close>) is the list of
  its entries, \<^verbatim>\<open>numSymbols\<close> being the length.
\<close>

record eCrashSymbol =
  function_c :: string
  address :: pointer

type_synonym eCrashSymbolTable = "eCrashSymbol list"

text \<open>
  Modelled from the spec: \<^verbatim>\<open>eCrashParameters\<close> is declared in eCrash.h; the fields are the
  ones eCrash.c reads. An absent \<^verbatim>\<open>filename\<close>, \<^verbatim>\<open>filep\<close> or \<^verbatim>\<open>symbolTable\<close> is a null
  pointer (\<open>None\<close>); an absent \<^verbatim>\<open>fd\<close> is \<open>-1\<close>. The array \<^verbatim>\<open>signals\<close> is the list of
  its elements, the terminating zero included.
\<close>

record eCrashParameters =
  filename :: "string option"
  filep :: "nat option"
  fd :: int
  maxStackDepth :: int
  defaultBacktraceSignal :: int
  threadWaitTime :: int
  debugLevel :: int
  dumpAllThreads :: bool
  useBacktraceSymbols :: bool
  symbolTable :: "eCrashSymbolTable option"
  signals :: "int list"

text \<open>
  A signal disposition. \<open>Addr_bt_handler\<close> and \<open>Addr_crash_handler\<close> are the addresses of
  the two handlers of eCrash.c, \<open>App_handler k\<close> any other function. A value of type
  \<^verbatim>\<open>sighandler_t\<close> is a disposition or \<^verbatim>\<open>SIG_ERR\<close>, which is \<open>None\<close>: \<^verbatim>\<open>SIG_ERR\<close> is what
  \<^verbatim>\<open>signal\<close> returns on failure, never a disposition a signal has.
\<close>

datatype sighandler = SIG_DFL | SIG_IGN | Addr_bt_handler | Addr_crash_handler | App_handler nat

type_synonym sighandler_t = "sighandler option"

text \<open>
  \<^verbatim>\<open>struct thread_list_node\<close>. The link \<^verbatim>\<open>Next\<close> is the list structure: the registry
  \<^verbatim>\<open>ThreadList\<close> is the list of its nodes from the head.
\<close>

record ThreadListNode =
  threadName :: string
  thread :: pthread_t
  backtraceSignal :: int
  oldHandler :: sighandler_t

text \<open>
  What the process does that can be seen from outside, in order: a signal sent to a
  thread, a second slept, a line handed to \<^verbatim>\<open>outputPrintf\<close> (the text after formatting).
\<close>

datatype event = Pthread_kill pthread_t int | Sleep nat | Printf string

text \<open>The levels of \<^verbatim>\<open>DPRINTF\<close> (constants of eCrash.h), as tags.\<close>

datatype debug_level = ECRASH_DEBUG_ERROR | ECRASH_DEBUG_VERBOSE | ECRASH_DEBUG_VERY_VERBOSE

text \<open>
  The capture buffer \<^verbatim>\<open>gbl_backtraceBuffer\<close>: \<open>slots\<close> is the number of addresses the
  allocation holds (zero for a null pointer), \<open>stored\<close> the addresses the last stack walk
  wrote, from index 0. Writing past the end of the allocation is undefined in C; the
  model keeps every address written, so that an overrun is the state
  \<open>slots < length stored\<close>, and says nothing about what the damaged heap does later.
\<close>

record backtrace_buffer =
  slots :: nat
  stored :: "pointer list"

text \<open>
  Modelled from the spec: what eCrash.c takes from outside. The first five fields are
  constants of eCrash.h. The others are the behaviour of the C library and of the
  operating system the source relies on:
  \<^item> \<open>catchable s\<close>: \<^verbatim>\<open>signal\<close> accepts the signal number \<open>s\<close>;
  \<^item> \<open>pointer_text a\<close>: what \<^verbatim>\<open>printf\<close> writes for \<^verbatim>\<open>%p\<close>;
  \<^item> \<open>write_accepts k\<close>: how many bytes the \<open>k\<close>-th call of \<^verbatim>\<open>write\<close> is ready to take
    (below 1: the call fails or makes no progress and returns that value);
  \<^item> \<open>fwrite_ok k\<close>: the \<open>k\<close>-th call of \<^verbatim>\<open>fwrite\<close> writes its item;
  \<^item> \<open>respond t = Some (d, st)\<close>: the thread \<open>t\<close>, when sent its backtrace signal, runs
    \<^verbatim>\<open>bt_handler\<close> to completion \<open>d\<close> seconds later, its call stack being \<open>st\<close>;
    \<open>None\<close>: it never does;
  \<^item> \<open>backtrace_symbols_c\<close>: the result of \<^verbatim>\<open>backtrace_symbols\<close> (\<open>None\<close>: a null pointer).
\<close>

record platform =
  ECRASH_DEFAULT_STACK_DEPTH :: int
  ECRASH_DEFAULT_BACKTRACE_SIGNAL :: int
  ECRASH_DEFAULT_THREAD_WAIT_TIME :: int
  ECRASH_DEBUG_DEFAULT :: int
  MAX_LINE_LEN :: int
  catchable :: "int \<Rightarrow> bool"
  pointer_text :: "pointer \<Rightarrow> string"
  write_accepts :: "nat \<Rightarrow> int"
  fwrite_ok :: "nat \<Rightarrow> bool"
  respond :: "pthread_t \<Rightarrow> (nat \<times> pointer list) option"
  backtrace_symbols_c :: "pointer list \<Rightarrow> string list option"

text \<open>
  The open files: the bytes each descriptor and each stream has received, and the number
  of calls of \<^verbatim>\<open>write\<close> and \<^verbatim>\<open>fwrite\<close> so far.
\<close>

record files =
  fd_bytes :: "int \<Rightarrow> string"
  stream_bytes :: "nat \<Rightarrow> string"
  nwrites :: nat
  nfwrites :: nat

text \<open>
  The state: the file-scope variables of eCrash.c, and the part of the process they act
  on: the signal dispositions, the open files, the events, and the messages of
  \<^verbatim>\<open>DPRINTF\<close> at error level (the verbose ones only print and are left out).
\<close>

record world =
  gbl_params :: eCrashParameters
  gbl_fd :: int
  gbl_backtraceEntries :: int
  gbl_backtraceBuffer :: backtrace_buffer
  gbl_backtraceSymbols :: "string list option"
  gbl_backtraceDoneFlag :: int
  ThreadList :: "ThreadListNode list"
  dispositions :: "int \<Rightarrow> sighandler"
  open_files :: files
  trace :: "event list"
  debug_log :: "(debug_level \<times> string) list"

section \<open>The thread registry\<close>

text \<open>
  \<^verbatim>\<open>signal(signo, handler)\<close>: installs the handler and returns the one it replaces, or
  fails (\<^verbatim>\<open>SIG_ERR\<close>) and changes nothing, for a signal number it does not accept or for
  the handler \<^verbatim>\<open>SIG_ERR\<close>.
\<close>

definition signal_c :: "platform \<Rightarrow> int \<Rightarrow> sighandler_t \<Rightarrow> world \<Rightarrow> sighandler_t \<times> world" where
  "signal_c pf signo handler w =
     (case handler of
        None \<Rightarrow> (None, w)
      | Some h \<Rightarrow>
          if catchable pf signo
          then (Some (dispositions w signo), w\<lparr>dispositions := (dispositions w)(signo := h)\<rparr>)
          else (None, w))"

text \<open>
  \<^verbatim>\<open>addThreadToList\<close>. The Boolean \<open>node_alloc\<close> is the outcome of
  \<^verbatim>\<open>malloc(sizeof(ThreadListNode))\<close>, the one allocation whose failure the source
  handles. \<^verbatim>\<open>strdup\<close> of the name is taken to succeed.
\<close>

definition addThreadToList ::
  "bool \<Rightarrow> string \<Rightarrow> pthread_t \<Rightarrow> int \<Rightarrow> sighandler_t \<Rightarrow> world \<Rightarrow> int \<times> world" where
  "addThreadToList node_alloc name thr signo old_handler w =
     (if \<not> node_alloc then (-1, w)
      else
        let node = \<lparr>threadName = name, thread = thr, backtraceSignal = signo,
                     oldHandler = old_handler\<rparr>
        in (0, w\<lparr>ThreadList := node # ThreadList w\<rparr>))"

text \<open>
  The loop of \<^verbatim>\<open>removeThreadFromList\<close>: the first node of the thread is unlinked;
  the result is that node (\<^verbatim>\<open>Removed\<close>) and the list without it.
\<close>

fun unlink :: "pthread_t \<Rightarrow> ThreadListNode list \<Rightarrow> ThreadListNode option \<times> ThreadListNode list" where
  "unlink thr [] = (None, [])"
| "unlink thr (Probe # rest) =
     (if thread Probe = thr then (Some Probe, rest)
      else (fst (unlink thr rest), Probe # snd (unlink thr rest)))"

definition removeThreadFromList :: "platform \<Rightarrow> pthread_t \<Rightarrow> world \<Rightarrow> int \<times> world" where
  "removeThreadFromList pf thr w =
     (case unlink thr (ThreadList w) of
        (Some Removed, rest) \<Rightarrow>
          (0, snd (signal_c pf (backtraceSignal Removed) (oldHandler Removed)
                     (w\<lparr>ThreadList := rest\<rparr>)))
      | (None, rest) \<Rightarrow> (-1, w\<lparr>ThreadList := rest\<rparr>))"

text \<open>
  \<^verbatim>\<open>eCrash_RegisterThread\<close> and \<^verbatim>\<open>eCrash_UnregisterThread\<close>; \<open>self\<close> is \<^verbatim>\<open>pthread_self()\<close>,
  the calling thread.
\<close>

definition eCrash_RegisterThread ::
  "platform \<Rightarrow> bool \<Rightarrow> pthread_t \<Rightarrow> string \<Rightarrow> int \<Rightarrow> world \<Rightarrow> int \<times> world" where
  "eCrash_RegisterThread pf node_alloc self name signo w =
     (let signo' = (if signo = 0 then defaultBacktraceSignal (gbl_params w) else signo);
          old_handler = fst (signal_c pf signo' (Some Addr_bt_handler) w);
          w' = snd (signal_c pf signo' (Some Addr_bt_handler) w)
      in addThreadToList node_alloc name self signo' old_handler w')"

definition eCrash_UnregisterThread :: "platform \<Rightarrow> pthread_t \<Rightarrow> world \<Rightarrow> int \<times> world" where
  "eCrash_UnregisterThread pf self w = removeThreadFromList pf self w"

section \<open>The output sink\<close>

text \<open>
  \<^verbatim>\<open>write(fd, buf, count)\<close>, \<open>buf\<close> being the bytes from the address passed on: the call
  takes what the platform is ready to take, at most \<open>count\<close> bytes, from the start of
  \<open>buf\<close>, and returns their number; a call that takes nothing returns the platform's
  value (zero or negative).
\<close>

definition write_c :: "platform \<Rightarrow> int \<Rightarrow> string \<Rightarrow> int \<Rightarrow> files \<Rightarrow> int \<times> files" where
  "write_c pf fildes buf count fs =
     (let r = (if write_accepts pf (nwrites fs) < 1 then write_accepts pf (nwrites fs)
               else min (write_accepts pf (nwrites fs)) count)
      in (r, fs\<lparr>nwrites := Suc (nwrites fs),
                 fd_bytes := (fd_bytes fs)(fildes := fd_bytes fs fildes @ take (nat r) buf)\<rparr>))"

text \<open>
  \<^verbatim>\<open>blockingWrite\<close>. The loop passes \<^verbatim>\<open>&str[offset]\<close> to \<^verbatim>\<open>write\<close>; the source sets
  \<^verbatim>\<open>offset\<close> to zero and no statement of the loop assigns it.
\<close>

function blockingWrite_loop ::
  "platform \<Rightarrow> string \<Rightarrow> int \<Rightarrow> int \<Rightarrow> int \<Rightarrow> int \<Rightarrow> files \<Rightarrow> int \<times> files" where
  "blockingWrite_loop pf str fildes offset bytes totalWritten fs =
     (if bytes > 0 then
        (let bytesWritten = fst (write_c pf fildes (drop (nat offset) str) bytes fs);
             fs' = snd (write_c pf fildes (drop (nat offset) str) bytes fs)
         in if bytesWritten < 1 then (totalWritten, fs')
            else blockingWrite_loop pf str fildes offset (bytes - bytesWritten)
                   (totalWritten + bytesWritten) fs')
      else (totalWritten, fs))"
  by pat_completeness auto
termination
  by (relation "measure (\<lambda>(pf, str, fildes, offset, bytes, totalWritten, fs). nat bytes)") auto

declare blockingWrite_loop.simps [simp del]

definition blockingWrite :: "platform \<Rightarrow> string \<Rightarrow> int \<Rightarrow> int \<Rightarrow> files \<Rightarrow> int \<times> files" where
  "blockingWrite pf str bytes fildes fs = blockingWrite_loop pf str fildes 0 bytes 0 fs"

text \<open>
  \<^verbatim>\<open>fwrite(ptr, size, 1, stream)\<close>: one item of \<open>nbytes\<close> bytes (the argument \<^verbatim>\<open>size\<close>);
  the result is the number of items written, zero when \<open>nbytes\<close> is zero. A call that
  fails is taken to add nothing to the stream.
\<close>

definition fwrite_c :: "platform \<Rightarrow> string \<Rightarrow> int \<Rightarrow> nat \<Rightarrow> files \<Rightarrow> int \<times> files" where
  "fwrite_c pf ptr nbytes stream fs =
     (if fwrite_ok pf (nfwrites fs) \<and> 0 < nbytes
      then (1, fs\<lparr>nfwrites := Suc (nfwrites fs),
                   stream_bytes :=
                     (stream_bytes fs)(stream := stream_bytes fs stream @ take (nat nbytes) ptr)\<rparr>)
      else (0, fs\<lparr>nfwrites := Suc (nfwrites fs)\<rparr>))"

text \<open>
  \<^verbatim>\<open>outputPrintf\<close>, given the formatted text \<open>outputLine\<close> (what \<^verbatim>\<open>vsnprintf\<close> makes of the
  format and its arguments; \<^verbatim>\<open>bytesInLine\<close> is its length). The three blocks of the
  source follow, each taking and giving \<^verbatim>\<open>return_value\<close> and the state.
\<close>

definition output_to_gbl_fd :: "platform \<Rightarrow> string \<Rightarrow> int \<Rightarrow> int \<times> world \<Rightarrow> int \<times> world" where
  "output_to_gbl_fd pf outputLine bytesInLine rw =
     (let return_value = fst rw; w = snd rw in
      if filename (gbl_params w) \<noteq> None then
        (if gbl_fd w \<noteq> -1 then
           (let written = blockingWrite pf outputLine bytesInLine (gbl_fd w) (open_files w)
            in (if fst written \<noteq> 0 then -2 else return_value,
                w\<lparr>open_files := snd written\<rparr>))
         else (return_value, w))
      else (return_value, w))"

definition output_to_filep :: "platform \<Rightarrow> string \<Rightarrow> int \<Rightarrow> int \<times> world \<Rightarrow> int \<times> world" where
  "output_to_filep pf outputLine bytesInLine rw =
     (let return_value = fst rw; w = snd rw in
      case filep (gbl_params w) of
        Some stream \<Rightarrow>
          (let written = fwrite_c pf outputLine bytesInLine stream (open_files w)
           in (if fst written \<noteq> 1 then -3 else return_value,
               w\<lparr>open_files := snd written\<rparr>))
      | None \<Rightarrow> (return_value, w))"

definition output_to_fd :: "platform \<Rightarrow> string \<Rightarrow> int \<Rightarrow> int \<times> world \<Rightarrow> int \<times> world" where
  "output_to_fd pf outputLine bytesInLine rw =
     (let return_value = fst rw; w = snd rw in
      if fd (gbl_params w) \<noteq> -1 then
        (let written = blockingWrite pf outputLine bytesInLine (fd (gbl_params w)) (open_files w)
         in (if fst written \<noteq> 0 then -4 else return_value,
             w\<lparr>open_files := snd written\<rparr>))
      else (return_value, w))"

definition outputPrintf :: "platform \<Rightarrow> string \<Rightarrow> world \<Rightarrow> int \<times> world" where
  "outputPrintf pf outputLine w0 =
     (let w = w0\<lparr>trace := trace w0 @ [Printf outputLine]\<rparr>;
          bytesInLine = int (length outputLine)
      in if bytesInLine > -1 \<and> bytesInLine < MAX_LINE_LEN pf - 1
         then output_to_fd pf outputLine bytesInLine
                (output_to_filep pf outputLine bytesInLine
                  (output_to_gbl_fd pf outputLine bytesInLine (0, w)))
         else (-1, w))"

section \<open>The symbol resolver and the frame lines\<close>

text \<open>
  \<^verbatim>\<open>lookupClosestSymbol\<close>: the loop runs over the entries in table order, \<open>last_sym\<close> being
  the local variable \<^verbatim>\<open>last\<close>; the result is the entry it points to, or \<open>None\<close> for
  the null pointer.
\<close>

fun lookup_loop :: "eCrashSymbol list \<Rightarrow> pointer \<Rightarrow> eCrashSymbol option \<Rightarrow> eCrashSymbol option" where
  "lookup_loop [] addr last_sym = last_sym"
| "lookup_loop (s # rest) addr last_sym =
     (if address s > addr then last_sym else lookup_loop rest addr (Some s))"

definition lookupClosestSymbol :: "eCrashSymbolTable \<Rightarrow> pointer \<Rightarrow> eCrashSymbol option" where
  "lookupClosestSymbol table addr = lookup_loop table addr None"

text \<open>
  What \<^verbatim>\<open>printf\<close> writes: \<open>dec\<close> is a number in decimal, \<open>dec02\<close> is \<^verbatim>\<open>%02d\<close> of a frame
  index (never negative), \<open>printf_u\<close> is \<^verbatim>\<open>%u\<close>. The argument of \<^verbatim>\<open>%u\<close> in a frame line
  is a difference of two pointers, while \<^verbatim>\<open>%u\<close> reads an \<^verbatim>\<open>unsigned int\<close>, 32 bits wide:
  where pointers are wider, \<^verbatim>\<open>printf\<close> writes the low 32 bits of the difference; where
  they are 32 bits wide, the difference is below \<open>2 ^ 32\<close> and is written as it is.
\<close>

definition digit :: "nat \<Rightarrow> char" where
  "digit d = ''0123456789'' ! d"

fun dec :: "nat \<Rightarrow> string" where
  "dec n = (if n < 10 then [digit n] else dec (n div 10) @ [digit (n mod 10)])"

declare dec.simps [simp del]

definition dec02 :: "nat \<Rightarrow> string" where
  "dec02 i = (if i < 10 then CHR ''0'' # dec i else dec i)"

definition printf_u :: "nat \<Rightarrow> string" where
  "printf_u n = dec (n mod 2 ^ 32)"

definition dquote :: string where
  "dquote = [CHR 0x22]"

text \<open>
  The line \<^verbatim>\<open>outputGlobalBacktrace\<close> prints for frame \<open>i\<close>, by the four branches of the
  source.
\<close>

definition frame_line :: "platform \<Rightarrow> world \<Rightarrow> nat \<Rightarrow> string" where
  "frame_line pf w i =
     (let frame = stored (gbl_backtraceBuffer w) ! i in
      case symbolTable (gbl_params w) of
        Some table \<Rightarrow>
          (case lookupClosestSymbol table frame of
             Some symbol \<Rightarrow>
               ''*      Frame '' @ dec02 i @ '': '' @ function_c symbol @ ''+''
                 @ printf_u (frame - address symbol) @ ''\<newline>''
           | None \<Rightarrow> ''*      Frame '' @ dec02 i @ '': '' @ pointer_text pf frame @ ''\<newline>'')
      | None \<Rightarrow>
          (case gbl_backtraceSymbols w of
             Some syms \<Rightarrow> ''*      Frame '' @ dec02 i @ '': '' @ syms ! i @ ''\<newline>''
           | None \<Rightarrow> ''*      Frame '' @ dec02 i @ '': '' @ pointer_text pf frame @ ''\<newline>''))"

definition outputGlobalBacktrace :: "platform \<Rightarrow> world \<Rightarrow> world" where
  "outputGlobalBacktrace pf w =
     fold (\<lambda>i w'. snd (outputPrintf pf (frame_line pf w' i) w'))
       [0 ..< nat (gbl_backtraceEntries w)] w"

section \<open>Backtrace capture\<close>

text \<open>
  \<^verbatim>\<open>backtrace(buffer, size)\<close> stores the innermost \<open>size\<close> return addresses of the calling
  thread's stack \<open>stack\<close>, or all of them when there are fewer, and returns their number.
\<close>

definition createGlobalBacktrace :: "platform \<Rightarrow> pointer list \<Rightarrow> world \<Rightarrow> world" where
  "createGlobalBacktrace pf stack w =
     (let frames = take (nat (maxStackDepth (gbl_params w))) stack;
          w1 = w\<lparr>gbl_backtraceEntries := int (length frames),
                 gbl_backtraceBuffer := (gbl_backtraceBuffer w)\<lparr>stored := frames\<rparr>\<rparr>
      in if symbolTable (gbl_params w1) = None \<and> useBacktraceSymbols (gbl_params w1)
         then w1\<lparr>gbl_backtraceSymbols := backtrace_symbols_c pf frames\<rparr>
         else w1)"

definition bt_handler :: "platform \<Rightarrow> pointer list \<Rightarrow> world \<Rightarrow> world" where
  "bt_handler pf stack w = (createGlobalBacktrace pf stack w)\<lparr>gbl_backtraceDoneFlag := 1\<rparr>"

section \<open>The all-threads phase\<close>

text \<open>
  \<^verbatim>\<open>pthread_kill\<close> and \<^verbatim>\<open>sleep(1)\<close>, with what the signalled thread does meanwhile:
  \<open>sleep_c pf thr i\<close> is the second number \<open>i + 1\<close> after the signal was sent to \<open>thr\<close>.
  A thread that has not answered when the wait for it ends is taken not to answer
  later, while another thread is waited for.
\<close>

definition pthread_kill_c :: "platform \<Rightarrow> pthread_t \<Rightarrow> int \<Rightarrow> world \<Rightarrow> world" where
  "pthread_kill_c pf thr signo w =
     (let w1 = w\<lparr>trace := trace w @ [Pthread_kill thr signo]\<rparr> in
      case respond pf thr of
        None \<Rightarrow> w1
      | Some (d, stack) \<Rightarrow> if d = 0 then bt_handler pf stack w1 else w1)"

definition sleep_c :: "platform \<Rightarrow> pthread_t \<Rightarrow> nat \<Rightarrow> world \<Rightarrow> world" where
  "sleep_c pf thr i w =
     (let w1 = w\<lparr>trace := trace w @ [Sleep 1]\<rparr> in
      case respond pf thr of
        None \<Rightarrow> w1
      | Some (d, stack) \<Rightarrow> if d = Suc i then bt_handler pf stack w1 else w1)"

text \<open>
  The inner loop of \<^verbatim>\<open>outputBacktraceThreads\<close>; \<open>waitTime\<close> is
  \<^verbatim>\<open>gbl_params.threadWaitTime\<close>, which nothing changes while the loop runs.
\<close>

function wait_loop :: "platform \<Rightarrow> pthread_t \<Rightarrow> int \<Rightarrow> nat \<Rightarrow> world \<Rightarrow> world" where
  "wait_loop pf thr waitTime i w =
     (if int i < waitTime then
        (if gbl_backtraceDoneFlag w \<noteq> 0 then w
         else wait_loop pf thr waitTime (Suc i) (sleep_c pf thr i w))
      else w)"
  by pat_completeness auto
termination
  by (relation "measure (\<lambda>(pf, thr, waitTime, i, w). nat waitTime - i)") auto

declare wait_loop.simps [simp del]

definition backtrace_line :: "platform \<Rightarrow> ThreadListNode \<Rightarrow> string" where
  "backtrace_line pf probe =
     ''*  Backtrace of '' @ dquote @ threadName probe @ dquote @ '' (0x''
       @ pointer_text pf (thread probe) @ '')\<newline>''"

definition error_line :: "platform \<Rightarrow> ThreadListNode \<Rightarrow> string" where
  "error_line pf probe =
     ''*  Error: unable to get backtrace of '' @ dquote @ threadName probe @ dquote @ '' (0x''
       @ pointer_text pf (thread probe) @ '')\<newline>''"

text \<open>The body of the outer loop, for the node \<open>probe\<close>.\<close>

definition backtrace_thread :: "platform \<Rightarrow> ThreadListNode \<Rightarrow> world \<Rightarrow> world" where
  "backtrace_thread pf probe w =
     (let w1 = w\<lparr>gbl_backtraceDoneFlag := 0\<rparr>;
          w2 = pthread_kill_c pf (thread probe) (backtraceSignal probe) w1;
          w3 = wait_loop pf (thread probe) (threadWaitTime (gbl_params w2)) 0 w2;
          w4 = (if gbl_backtraceDoneFlag w3 \<noteq> 0
                then outputGlobalBacktrace pf (snd (outputPrintf pf (backtrace_line pf probe) w3))
                else snd (outputPrintf pf (error_line pf probe) w3))
      in snd (outputPrintf pf ''*\<newline>'' w4))"

fun outputBacktraceThreads_loop :: "platform \<Rightarrow> ThreadListNode list \<Rightarrow> world \<Rightarrow> world" where
  "outputBacktraceThreads_loop pf [] w = w"
| "outputBacktraceThreads_loop pf (probe # rest) w =
     outputBacktraceThreads_loop pf rest (backtrace_thread pf probe w)"

definition outputBacktraceThreads :: "platform \<Rightarrow> world \<Rightarrow> world" where
  "outputBacktraceThreads pf w = outputBacktraceThreads_loop pf (ThreadList w) w"

section \<open>Initialisation\<close>

text \<open>
  \<^verbatim>\<open>ValidateSymbolTable\<close>. \<^verbatim>\<open>lastAddress\<close> is initialised to zero and no statement of the
  loop assigns it. \<^verbatim>\<open>DPRINTF\<close> is a macro of eCrash.h; a call at error level is recorded
  in \<open>debug_log\<close>, whatever the configured verbosity.
\<close>

fun validate_loop :: "platform \<Rightarrow> eCrashSymbol list \<Rightarrow> nat \<Rightarrow> int \<Rightarrow> world \<Rightarrow> int \<times> world" where
  "validate_loop pf [] lastAddress rc w = (rc, w)"
| "validate_loop pf (s # rest) lastAddress rc w =
     (if lastAddress > address s
      then validate_loop pf rest lastAddress (-1)
             (w\<lparr>debug_log := debug_log w @
                  [(ECRASH_DEBUG_ERROR,
                    ''Error: symbol table is not sorted (last='' @ pointer_text pf lastAddress
                      @ '', current='' @ pointer_text pf (address s) @ '')\<newline>'')]\<rparr>)
      else validate_loop pf rest lastAddress rc w)"

definition ValidateSymbolTable :: "platform \<Rightarrow> world \<Rightarrow> int \<times> world" where
  "ValidateSymbolTable pf w =
     (case symbolTable (gbl_params w) of
        None \<Rightarrow> (0, w)
      | Some table \<Rightarrow> validate_loop pf table 0 0 w)"

text \<open>
  What stops \<^verbatim>\<open>eCrash_Init\<close> before it returns: reading a field through a null
  \<^verbatim>\<open>params\<close>, \<^verbatim>\<open>strdup\<close> of a null \<^verbatim>\<open>filename\<close>, and running off the end of \<^verbatim>\<open>signals\<close>
  when it holds no zero.
\<close>

datatype fault = Null_dereference | Strdup_null | Array_overrun

fun catch_signals :: "platform \<Rightarrow> int list \<Rightarrow> world \<Rightarrow> fault + world" where
  "catch_signals pf [] w = Inl Array_overrun"
| "catch_signals pf (s # rest) w =
     (if s \<noteq> 0
      then catch_signals pf rest (snd (signal_c pf s (Some Addr_crash_handler) w))
      else Inr w)"

text \<open>
  The block of \<^verbatim>\<open>eCrash_Init\<close> that sets the defaults of the copied parameters.
\<close>

definition set_defaults :: "platform \<Rightarrow> eCrashParameters \<Rightarrow> eCrashParameters" where
  "set_defaults pf p =
     (let g1 = (if maxStackDepth p = 0
                then p\<lparr>maxStackDepth := ECRASH_DEFAULT_STACK_DEPTH pf\<rparr> else p);
          g2 = (if defaultBacktraceSignal g1 = 0
                then g1\<lparr>defaultBacktraceSignal := ECRASH_DEFAULT_BACKTRACE_SIGNAL pf\<rparr>
                else g1);
          g3 = (if threadWaitTime g2 = 0
                then g2\<lparr>threadWaitTime := ECRASH_DEFAULT_THREAD_WAIT_TIME pf\<rparr> else g2)
      in if debugLevel g3 = 0 then g3\<lparr>debugLevel := ECRASH_DEBUG_DEFAULT pf\<rparr> else g3)"

text \<open>
  \<^verbatim>\<open>eCrash_Init\<close> from the test \<^verbatim>\<open>params != NULL\<close> on. The copies of the parameters and
  of the symbol table are copies of values; the allocations are taken to succeed.
\<close>

definition eCrash_Init_rest :: "platform \<Rightarrow> eCrashParameters option \<Rightarrow> world \<Rightarrow> fault + (int \<times> world)" where
  "eCrash_Init_rest pf params w =
     (case params of
        Some p \<Rightarrow>
          (case filename p of
             None \<Rightarrow> Inl Strdup_null
           | Some path \<Rightarrow>
               let w1 = w\<lparr>gbl_params := set_defaults pf p\<rparr>;
                   w2 = (if symbolTable (gbl_params w1) \<noteq> None
                         then snd (ValidateSymbolTable pf w1) else w1)
               in (case catch_signals pf (signals (gbl_params w2)) w2 of
                     Inl f \<Rightarrow> Inl f
                   | Inr w3 \<Rightarrow> Inr (0, w3)))
      | None \<Rightarrow>
          Inr (-1, w\<lparr>debug_log := debug_log w @
                        [(ECRASH_DEBUG_ERROR, ''   Error:  Null Params!\<newline>'')]\<rparr>))"

text \<open>
  \<^verbatim>\<open>eCrash_Init\<close>: its first statement allocates the capture buffer with
  \<^verbatim>\<open>params->maxStackDepth + 5\<close> slots, before \<^verbatim>\<open>params\<close> is tested. (A depth within 5 of
  the largest \<^verbatim>\<open>int\<close> overflows the sum in C; the model does not follow that.)
\<close>

definition eCrash_Init :: "platform \<Rightarrow> eCrashParameters option \<Rightarrow> world \<Rightarrow> fault + (int \<times> world)" where
  "eCrash_Init pf params w =
     (case params of
        None \<Rightarrow> Inl Null_dereference
      | Some p \<Rightarrow>
          eCrash_Init_rest pf params
            (w\<lparr>gbl_backtraceBuffer := \<lparr>slots = nat (maxStackDepth p + 5), stored = []\<rparr>\<rparr>))"

section \<open>The vocabulary of the properties\<close>

text \<open>
  A table is sorted ascending by address when the addresses never decrease from one
  entry to the next; two entries may share an address (the table of \<^verbatim>\<open>ecrash_test.c\<close>
  has two entries for the address of \<^verbatim>\<open>sleepFuncB\<close>).
\<close>

definition sorted_by_address :: "eCrashSymbolTable \<Rightarrow> bool" where
  "sorted_by_address table = sorted (map address table)"

text \<open>
  \<open>e\<close> is an entry of the table with the greatest address not exceeding \<open>addr\<close>; and \<open>i\<close>
  is the last position of the table whose address does not exceed \<open>addr\<close>.
\<close>

definition greatest_not_exceeding :: "eCrashSymbolTable \<Rightarrow> pointer \<Rightarrow> eCrashSymbol \<Rightarrow> bool" where
  "greatest_not_exceeding table addr e =
     (e \<in> set table \<and> address e \<le> addr
      \<and> (\<forall>e' \<in> set table. address e' \<le> addr \<longrightarrow> address e' \<le> address e))"

definition last_not_exceeding :: "eCrashSymbolTable \<Rightarrow> pointer \<Rightarrow> nat \<Rightarrow> bool" where
  "last_not_exceeding table addr i =
     (i < length table \<and> address (table ! i) \<le> addr
      \<and> (\<forall>j \<in> {0 ..< length table}. address (table ! j) \<le> addr \<longrightarrow> j \<le> i))"

text \<open>
  The line that reports, for the frame \<open>i\<close> at the address \<open>frame\<close>, the name of \<open>symbol\<close>
  and the offset of the frame from the symbol's address.
\<close>

definition symbol_frame_line :: "nat \<Rightarrow> eCrashSymbol \<Rightarrow> pointer \<Rightarrow> string" where
  "symbol_frame_line i symbol frame =
     ''*      Frame '' @ dec02 i @ '': '' @ function_c symbol @ ''+''
       @ dec (frame - address symbol) @ ''\<newline>''"

text \<open>
  The events of the all-threads phase. The thread of a node does not set the completion
  flag within the wait budget when it never answers, or answers after more seconds than
  the loop sleeps. A section is what the phase does for one node: the signal to its
  thread first, the separator line last, neither of them in between.
\<close>

definition separator :: event where
  "separator = Printf ''*\<newline>''"

fun is_kill :: "event \<Rightarrow> bool" where
  "is_kill (Pthread_kill thr signo) = True"
| "is_kill e = False"

definition kill_of :: "ThreadListNode \<Rightarrow> event" where
  "kill_of probe = Pthread_kill (thread probe) (backtraceSignal probe)"

definition timed_out :: "platform \<Rightarrow> int \<Rightarrow> ThreadListNode \<Rightarrow> bool" where
  "timed_out pf waitTime probe =
     (case respond pf (thread probe) of
        None \<Rightarrow> True
      | Some (d, stack) \<Rightarrow> nat waitTime < d)"

definition is_section :: "ThreadListNode \<Rightarrow> event list \<Rightarrow> bool" where
  "is_section probe sec =
     (2 \<le> length sec \<and> hd sec = kill_of probe \<and> last sec = separator
      \<and> list_all (\<lambda>e. \<not> is_kill e \<and> e \<noteq> separator) (butlast (tl sec)))"

text \<open>
  Threads registering one after the other, each with its identity, its name and the
  signal number it asks for, every node being allocated.
\<close>

fun register_all :: "platform \<Rightarrow> (pthread_t \<times> string \<times> int) list \<Rightarrow> world \<Rightarrow> world" where
  "register_all pf [] w = w"
| "register_all pf ((self, name, signo) # others) w =
     register_all pf others (snd (eCrash_RegisterThread pf True self name signo w))"

section \<open>A platform and a process to run the model on\<close>

text \<open>
  Values for the constants of eCrash.h, which is not among the sources, and a C library
  in which every signal from 1 to 64 but 9 and 19 can be caught, every write takes all
  it is offered and no thread answers a signal. \<open>initial_world\<close> is the process before
  \<^verbatim>\<open>eCrash_Init\<close>: the file-scope variables as their initialisers leave them, every
  signal with its default disposition, nothing written yet.
\<close>

definition example_platform :: platform where
  "example_platform =
     \<lparr>ECRASH_DEFAULT_STACK_DEPTH = 10, ECRASH_DEFAULT_BACKTRACE_SIGNAL = 12,
      ECRASH_DEFAULT_THREAD_WAIT_TIME = 10, ECRASH_DEBUG_DEFAULT = 1, MAX_LINE_LEN = 256,
      catchable = (\<lambda>s. 1 \<le> s \<and> s \<le> 64 \<and> s \<noteq> 9 \<and> s \<noteq> 19),
      pointer_text = (\<lambda>a. ''0x'' @ dec a),
      write_accepts = (\<lambda>k. 4096), fwrite_ok = (\<lambda>k. True),
      respond = (\<lambda>t. None), backtrace_symbols_c = (\<lambda>frames. None)\<rparr>"

definition zeroed_params :: eCrashParameters where
  "zeroed_params =
     \<lparr>filename = None, filep = None, fd = 0, maxStackDepth = 0, defaultBacktraceSignal = 0,
      threadWaitTime = 0, debugLevel = 0, dumpAllThreads = False, useBacktraceSymbols = False,
      symbolTable = None, signals = [0]\<rparr>"

definition initial_world :: world where
  "initial_world =
     \<lparr>gbl_params = zeroed_params, gbl_fd = -1, gbl_backtraceEntries = 0,
      gbl_backtraceBuffer = \<lparr>slots = 0, stored = []\<rparr>, gbl_backtraceSymbols = None,
      gbl_backtraceDoneFlag = 0, ThreadList = [], dispositions = (\<lambda>s. SIG_DFL),
      open_files = \<lparr>fd_bytes = (\<lambda>d. []), stream_bytes = (\<lambda>f. []), nwrites = 0, nfwrites = 0\<rparr>,
      trace = [], debug_log = []\<rparr>"

text \<open>
  The table of the spec's example; a process whose one captured frame is \<open>0x150\<close>; the
  parameters \<^verbatim>\<open>main\<close> of \<^verbatim>\<open>ecrash_test.c\<close> passes (zeroed, then a file name, a
  descriptor, the flag and four signals), with that table; a platform on which thread 1
  answers its signal after two seconds and no other thread answers; the process after
  \<^verbatim>\<open>eCrash_Init\<close>; and the same after two threads have registered.
\<close>

definition fg_table :: eCrashSymbolTable where
  "fg_table = [\<lparr>function_c = ''f'', address = 0x100\<rparr>, \<lparr>function_c = ''g'', address = 0x200\<rparr>]"

definition fg_world :: world where
  "fg_world = initial_world\<lparr>gbl_params := zeroed_params\<lparr>symbolTable := Some fg_table\<rparr>,
      gbl_backtraceEntries := 1, gbl_backtraceBuffer := \<lparr>slots = 5, stored = [0x150]\<rparr>\<rparr>"

definition test_params :: eCrashParameters where
  "test_params = zeroed_params\<lparr>filename := Some ''eCrash.out.filename'', fd := 5,
      dumpAllThreads := True, symbolTable := Some fg_table, signals := [11, 4, 7, 6, 0]\<rparr>"

definition answering_platform :: platform where
  "answering_platform =
     example_platform\<lparr>respond := (\<lambda>t. if t = 1 then Some (2, [0x150, 0x250]) else None)\<rparr>"

definition started_world :: world where
  "started_world =
     (case eCrash_Init answering_platform (Some test_params) initial_world of
        Inr (rc, w) \<Rightarrow> w
      | Inl f \<Rightarrow> initial_world)"

definition two_threads :: world where
  "two_threads =
     register_all answering_platform [(1, ''Thread 1'', 0), (2, ''Thread 2'', 0)] started_world"

section \<open>The thread registry: registration and unregistration\<close>


lemma unlink_absent: "thr \<notin> thread ` set ns \<Longrightarrow> unlink thr ns = (None, ns)"
  by (induction ns) auto

text \<open>
  C10. Registration is not atomic on error. When the node cannot be allocated,
  \<^verbatim>\<open>eCrash_RegisterThread\<close> returns \<open>-1\<close> and adds nothing to the registry, yet the
  signal it chose (one \<^verbatim>\<open>signal\<close> accepts) is left with \<^verbatim>\<open>bt_handler\<close> as its disposition:
  the handler was installed before the allocation was tried. Nothing records the
  disposition it replaced: if the thread had no earlier node, unregistering it finds
  nothing, returns \<open>-1\<close> and leaves \<^verbatim>\<open>bt_handler\<close> in place.
\<close>

theorem register_alloc_failure_keeps_handler:
  assumes "catchable pf (if signo = 0 then defaultBacktraceSignal (gbl_params w) else signo)"
  shows "fst (eCrash_RegisterThread pf False self name signo w) = -1
    \<and> ThreadList (snd (eCrash_RegisterThread pf False self name signo w)) = ThreadList w
    \<and> dispositions (snd (eCrash_RegisterThread pf False self name signo w))
        (if signo = 0 then defaultBacktraceSignal (gbl_params w) else signo) = Addr_bt_handler
    \<and> (self \<notin> thread ` set (ThreadList w) \<longrightarrow>
         fst (eCrash_UnregisterThread pf self
                (snd (eCrash_RegisterThread pf False self name signo w))) = -1
         \<and> dispositions (snd (eCrash_UnregisterThread pf self
               (snd (eCrash_RegisterThread pf False self name signo w))))
             (if signo = 0 then defaultBacktraceSignal (gbl_params w) else signo) = Addr_bt_handler)"
  using assms
  by (simp add: eCrash_RegisterThread_def eCrash_UnregisterThread_def addThreadToList_def
      removeThreadFromList_def signal_c_def Let_def unlink_absent)

text \<open>
  The same at a concrete input: thread 7 asks for signal 10, whose disposition is the
  default one, in a process with an empty registry.
\<close>

theorem register_alloc_failure_witness:
  "catchable example_platform 10
   \<and> fst (eCrash_RegisterThread example_platform False 7 ''worker'' 10 initial_world) = -1
   \<and> dispositions initial_world 10 = SIG_DFL
   \<and> dispositions (snd (eCrash_RegisterThread example_platform False 7 ''worker'' 10 initial_world)) 10
       = Addr_bt_handler
   \<and> fst (eCrash_UnregisterThread example_platform 7
         (snd (eCrash_RegisterThread example_platform False 7 ''worker'' 10 initial_world))) = -1"
proof -
  have c: "catchable example_platform
      (if (10::int) = 0 then defaultBacktraceSignal (gbl_params initial_world) else 10)"
    by (simp add: example_platform_def)
  have n: "(7::nat) \<notin> thread ` set (ThreadList initial_world)"
    by (simp add: initial_world_def)
  from register_alloc_failure_keeps_handler [OF c, of 7 "''worker''"] n
  show ?thesis
    by (simp add: example_platform_def initial_world_def)
qed

section \<open>The output sink: what the source does\<close>

text \<open>
  C6. \<^verbatim>\<open>blockingWrite\<close> on a descriptor that takes two bytes per call, for the four
  bytes \<open>abcd\<close>: the loop calls \<^verbatim>\<open>write\<close> twice and returns 4, and the descriptor has
  received \<open>abab\<close>. Each call writes from the start of the string, since \<^verbatim>\<open>offset\<close> stays
  zero; the bytes delivered are not the bytes of the string.
\<close>

theorem blockingWrite_partial_write:
  "fst (blockingWrite (example_platform\<lparr>write_accepts := (\<lambda>k. 2)\<rparr>) ''abcd'' 4 5
          (open_files initial_world)) = 4
   \<and> nwrites (snd (blockingWrite (example_platform\<lparr>write_accepts := (\<lambda>k. 2)\<rparr>) ''abcd'' 4 5
          (open_files initial_world))) = 2
   \<and> fd_bytes (snd (blockingWrite (example_platform\<lparr>write_accepts := (\<lambda>k. 2)\<rparr>) ''abcd'' 4 5
          (open_files initial_world))) 5 = ''abab''"
  by (simp add: blockingWrite_def blockingWrite_loop.simps write_c_def example_platform_def
      initial_world_def Let_def)

text \<open>
  C5. \<^verbatim>\<open>outputPrintf\<close> with the explicit descriptor 5 as the only target, for the line
  \<open>*\<close> and a newline. When \<^verbatim>\<open>write\<close> takes the whole line, the descriptor has received it
  and the status is \<open>-4\<close>; when \<^verbatim>\<open>write\<close> fails (returns \<open>-1\<close>), the descriptor has received
  nothing and the status is \<open>0\<close>. The status is nonzero exactly when \<^verbatim>\<open>blockingWrite\<close>
  wrote something.
\<close>

theorem outputPrintf_status_inverted:
  "fst (outputPrintf example_platform ''*\<newline>''
          (initial_world\<lparr>gbl_params := zeroed_params\<lparr>fd := 5\<rparr>\<rparr>)) = -4
   \<and> fd_bytes (open_files (snd (outputPrintf example_platform ''*\<newline>''
          (initial_world\<lparr>gbl_params := zeroed_params\<lparr>fd := 5\<rparr>\<rparr>)))) 5 = ''*\<newline>''
   \<and> fst (outputPrintf (example_platform\<lparr>write_accepts := (\<lambda>k. -1)\<rparr>) ''*\<newline>''
          (initial_world\<lparr>gbl_params := zeroed_params\<lparr>fd := 5\<rparr>\<rparr>)) = 0
   \<and> fd_bytes (open_files (snd (outputPrintf (example_platform\<lparr>write_accepts := (\<lambda>k. -1)\<rparr>)
          ''*\<newline>'' (initial_world\<lparr>gbl_params := zeroed_params\<lparr>fd := 5\<rparr>\<rparr>)))) 5 = []"
  by (simp add: outputPrintf_def output_to_fd_def output_to_filep_def output_to_gbl_fd_def
      blockingWrite_def blockingWrite_loop.simps write_c_def example_platform_def
      initial_world_def zeroed_params_def Let_def)

section \<open>Initialisation: what the source does\<close>

lemma validate_loop_never: "validate_loop pf table 0 rc w = (rc, w)"
  by (induction table) simp_all

lemma ValidateSymbolTable_unchanged: "ValidateSymbolTable pf w = (0, w)"
  by (simp add: ValidateSymbolTable_def validate_loop_never split: option.split)

text \<open>
  C4. \<^verbatim>\<open>ValidateSymbolTable\<close> returns zero and logs nothing, for every table, sorted or
  not: \<^verbatim>\<open>lastAddress\<close> stays zero, and no address is below zero. So a table with a
  descending pair, such as \<open>g\<close> at \<open>0x200\<close> before \<open>f\<close> at \<open>0x100\<close>, is not detected.
\<close>

theorem ValidateSymbolTable_detects_nothing:
  "fst (ValidateSymbolTable pf w) = 0
   \<and> debug_log (snd (ValidateSymbolTable pf w)) = debug_log w
   \<and> fst (ValidateSymbolTable pf
          (w\<lparr>gbl_params := (gbl_params w)\<lparr>symbolTable :=
              Some [\<lparr>function_c = ''g'', address = 0x200\<rparr>,
                    \<lparr>function_c = ''f'', address = 0x100\<rparr>]\<rparr>\<rparr>)) = 0"
  by (simp add: ValidateSymbolTable_unchanged)

text \<open>
  C3. \<^verbatim>\<open>eCrash_Init\<close> with a null \<^verbatim>\<open>params\<close> does not return \<open>-1\<close>: its first statement
  reads \<^verbatim>\<open>params->maxStackDepth\<close>. With parameters whose \<^verbatim>\<open>filename\<close> is null it does not
  return zero: it calls \<^verbatim>\<open>strdup\<close> on the null pointer.
\<close>

theorem eCrash_Init_null_params:
  "eCrash_Init pf None w = Inl Null_dereference
   \<and> eCrash_Init pf (Some (p\<lparr>filename := None\<rparr>)) w = Inl Strdup_null"
  by (simp add: eCrash_Init_def eCrash_Init_rest_def)

lemma catch_signals_fields:
  "catch_signals pf sigs w = Inr w' \<Longrightarrow>
     gbl_params w' = gbl_params w \<and> gbl_backtraceBuffer w' = gbl_backtraceBuffer w"
  by (induction sigs arbitrary: w) (auto simp add: signal_c_def split: if_splits)

lemma catch_signals_returns:
  "0 \<in> set sigs \<Longrightarrow> \<exists>w'. catch_signals pf sigs w = Inr w'"
  by (induction sigs arbitrary: w) auto

lemma set_defaults_fields [simp]:
  "signals (set_defaults pf p) = signals p"
  "symbolTable (set_defaults pf p) = symbolTable p"
  "maxStackDepth (set_defaults pf p)
     = (if maxStackDepth p = 0 then ECRASH_DEFAULT_STACK_DEPTH pf else maxStackDepth p)"
  by (simp_all add: set_defaults_def Let_def)

text \<open>
  Where \<^verbatim>\<open>eCrash_Init\<close> does return, it returns zero; it returns for parameters with a
  file name and a terminated list of signals. The buffer then has five slots more than
  the depth the caller gave, not than the depth in force.
\<close>

lemma eCrash_Init_returns:
  assumes "filename p = Some path" and "0 \<in> set (signals p)"
  shows "\<exists>w'. eCrash_Init pf (Some p) w = Inr (0, w')"
proof -
  have "\<exists>w'. (case catch_signals pf (signals p) v of Inl f \<Rightarrow> Inl f | Inr w3 \<Rightarrow> Inr (0::int, w3))
            = Inr (0, w')" for v
  proof -
    obtain w3 where "catch_signals pf (signals p) v = Inr w3"
      using catch_signals_returns [OF assms(2)] by blast
    then show ?thesis by simp
  qed
  then show ?thesis
    using assms(1)
    by (simp add: eCrash_Init_def eCrash_Init_rest_def Let_def ValidateSymbolTable_unchanged)
qed

lemma eCrash_Init_buffer_slots:
  assumes "eCrash_Init pf (Some p) w = Inr (rc, w')"
  shows "slots (gbl_backtraceBuffer w') = nat (maxStackDepth p + 5)
    \<and> maxStackDepth (gbl_params w')
        = (if maxStackDepth p = 0 then ECRASH_DEFAULT_STACK_DEPTH pf else maxStackDepth p)"
proof -
  let ?w1 = "w\<lparr>gbl_backtraceBuffer := \<lparr>slots = nat (maxStackDepth p + 5), stored = []\<rparr>,
               gbl_params := set_defaults pf p\<rparr>"
  from assms obtain path where "filename p = Some path"
    by (cases "filename p") (simp_all add: eCrash_Init_def eCrash_Init_rest_def)
  with assms have "catch_signals pf (signals p) ?w1 = Inr w'"
    by (simp add: eCrash_Init_def eCrash_Init_rest_def Let_def ValidateSymbolTable_unchanged
        split: sum.splits cong: if_cong)
  from catch_signals_fields [OF this] show ?thesis by simp
qed

lemma createGlobalBacktrace_stored:
  "stored (gbl_backtraceBuffer (createGlobalBacktrace pf stack w))
     = take (nat (maxStackDepth (gbl_params w))) stack"
  by (simp add: createGlobalBacktrace_def Let_def)

text \<open>
  C2. \<^verbatim>\<open>eCrash_Init\<close> with the parameters of \<^verbatim>\<open>ecrash_test.c\<close>, whose depth is zero, on
  a platform whose default depth is 10: it returns zero, the buffer has 5 slots and
  the depth in force is 10. A stack walk of a thread twelve frames deep then stores ten
  addresses, five of them past the end of the buffer. On any platform, with these
  parameters the buffer has 5 slots and a stack walk stores as many addresses as the
  default depth allows and the stack has.
\<close>

theorem eCrash_Init_buffer_too_small:
  "(case eCrash_Init example_platform (Some test_params) initial_world of
      Inl f \<Rightarrow> False
    | Inr (rc, w) \<Rightarrow>
        rc = 0 \<and> slots (gbl_backtraceBuffer w) = 5 \<and> maxStackDepth (gbl_params w) = 10
        \<and> stored (gbl_backtraceBuffer
             (createGlobalBacktrace example_platform [1, 2, 3, 4, 5, 6, 7, 8, 9, 10, 11, 12] w))
            = [1, 2, 3, 4, 5, 6, 7, 8, 9, 10])
   \<and> (\<exists>w. eCrash_Init pf (Some test_params) initial_world = Inr (0, w)
          \<and> slots (gbl_backtraceBuffer w) = 5
          \<and> length (stored (gbl_backtraceBuffer (createGlobalBacktrace pf stack w)))
              = min (length stack) (nat (ECRASH_DEFAULT_STACK_DEPTH pf)))"
proof
  show "case eCrash_Init example_platform (Some test_params) initial_world of
      Inl f \<Rightarrow> False
    | Inr (rc, w) \<Rightarrow>
        rc = 0 \<and> slots (gbl_backtraceBuffer w) = 5 \<and> maxStackDepth (gbl_params w) = 10
        \<and> stored (gbl_backtraceBuffer
             (createGlobalBacktrace example_platform [1, 2, 3, 4, 5, 6, 7, 8, 9, 10, 11, 12] w))
            = [1, 2, 3, 4, 5, 6, 7, 8, 9, 10]"
    by (simp add: eCrash_Init_def eCrash_Init_rest_def set_defaults_def test_params_def
        zeroed_params_def example_platform_def initial_world_def signal_c_def
        createGlobalBacktrace_def ValidateSymbolTable_unchanged Let_def)
  have f: "filename test_params = Some ''eCrash.out.filename''"
    and s: "0 \<in> set (signals test_params)"
    and d: "maxStackDepth test_params = 0"
    by (simp_all add: test_params_def zeroed_params_def)
  obtain w where w: "eCrash_Init pf (Some test_params) initial_world = Inr (0, w)"
    using eCrash_Init_returns [OF f s] by blast
  from eCrash_Init_buffer_slots [OF w] d
  have "slots (gbl_backtraceBuffer w) = 5"
    and "maxStackDepth (gbl_params w) = ECRASH_DEFAULT_STACK_DEPTH pf"
    by simp_all
  then have "slots (gbl_backtraceBuffer w) = 5
      \<and> length (stored (gbl_backtraceBuffer (createGlobalBacktrace pf stack w)))
          = min (length stack) (nat (ECRASH_DEFAULT_STACK_DEPTH pf))"
    by (simp add: createGlobalBacktrace_stored)
  with w show "\<exists>w. eCrash_Init pf (Some test_params) initial_world = Inr (0, w)
          \<and> slots (gbl_backtraceBuffer w) = 5
          \<and> length (stored (gbl_backtraceBuffer (createGlobalBacktrace pf stack w)))
              = min (length stack) (nat (ECRASH_DEFAULT_STACK_DEPTH pf))"
    by blast
qed

section \<open>What a call of the output sink leaves unchanged\<close>

lemma outputPrintf_fields [simp]:
  "trace (snd (outputPrintf pf line w)) = trace w @ [Printf line]"
  "gbl_params (snd (outputPrintf pf line w)) = gbl_params w"
  "gbl_backtraceEntries (snd (outputPrintf pf line w)) = gbl_backtraceEntries w"
  "gbl_backtraceBuffer (snd (outputPrintf pf line w)) = gbl_backtraceBuffer w"
  "gbl_backtraceSymbols (snd (outputPrintf pf line w)) = gbl_backtraceSymbols w"
  "gbl_backtraceDoneFlag (snd (outputPrintf pf line w)) = gbl_backtraceDoneFlag w"
  by (simp_all add: outputPrintf_def output_to_fd_def output_to_filep_def output_to_gbl_fd_def
      Let_def split: option.split)

lemma frame_line_cong:
  "gbl_params w' = gbl_params w \<Longrightarrow> gbl_backtraceBuffer w' = gbl_backtraceBuffer w \<Longrightarrow>
   gbl_backtraceSymbols w' = gbl_backtraceSymbols w \<Longrightarrow> frame_line pf w' i = frame_line pf w i"
  by (simp add: frame_line_def cong: option.case_cong)

lemma fold_frames:
  "trace (fold (\<lambda>i w'. snd (outputPrintf pf (frame_line pf w' i) w')) is w)
      = trace w @ map (\<lambda>i. Printf (frame_line pf w i)) is
   \<and> gbl_params (fold (\<lambda>i w'. snd (outputPrintf pf (frame_line pf w' i) w')) is w) = gbl_params w
   \<and> gbl_backtraceEntries (fold (\<lambda>i w'. snd (outputPrintf pf (frame_line pf w' i) w')) is w)
      = gbl_backtraceEntries w
   \<and> gbl_backtraceBuffer (fold (\<lambda>i w'. snd (outputPrintf pf (frame_line pf w' i) w')) is w)
      = gbl_backtraceBuffer w
   \<and> gbl_backtraceSymbols (fold (\<lambda>i w'. snd (outputPrintf pf (frame_line pf w' i) w')) is w)
      = gbl_backtraceSymbols w
   \<and> gbl_backtraceDoneFlag (fold (\<lambda>i w'. snd (outputPrintf pf (frame_line pf w' i) w')) is w)
      = gbl_backtraceDoneFlag w"
proof (induction "is" arbitrary: w)
  case Nil
  show ?case by simp
next
  case (Cons i "is")
  let ?w1 = "snd (outputPrintf pf (frame_line pf w i) w)"
  have same: "\<And>j. frame_line pf ?w1 j = frame_line pf w j"
    by (rule frame_line_cong) simp_all
  show ?case
    using Cons.IH [of ?w1] by (simp add: same)
qed

lemma outputGlobalBacktrace_fields [simp]:
  "trace (outputGlobalBacktrace pf w)
     = trace w @ map (\<lambda>i. Printf (frame_line pf w i)) [0 ..< nat (gbl_backtraceEntries w)]"
  "gbl_params (outputGlobalBacktrace pf w) = gbl_params w"
  "gbl_backtraceSymbols (outputGlobalBacktrace pf w) = gbl_backtraceSymbols w"
  unfolding outputGlobalBacktrace_def
  using fold_frames [of pf "[0 ..< nat (gbl_backtraceEntries w)]" w]
  by simp_all

section \<open>The symbol resolver\<close>

text \<open>The low 32 bits, computed on integers: the equation used to evaluate \<open>printf_u\<close>.\<close>

lemma printf_u_code [code]: "printf_u n = dec (nat (int n mod 4294967296))"
proof -
  have "int n mod 4294967296 = int (n mod 4294967296)"
    by (simp add: zmod_int)
  then show ?thesis by (simp add: printf_u_def)
qed

text \<open>
  The loop returns the last entry of the longest prefix of the table whose addresses
  do not exceed the query.
\<close>

lemma lookup_loop_takeWhile:
  "lookup_loop table addr acc =
     (if takeWhile (\<lambda>s. address s \<le> addr) table = [] then acc
      else Some (last (takeWhile (\<lambda>s. address s \<le> addr) table)))"
  by (induction table arbitrary: acc) (auto simp: not_less)

lemma lookupClosestSymbol_takeWhile:
  "lookupClosestSymbol table addr =
     (if takeWhile (\<lambda>s. address s \<le> addr) table = [] then None
      else Some (last (takeWhile (\<lambda>s. address s \<le> addr) table)))"
  by (simp add: lookupClosestSymbol_def lookup_loop_takeWhile)

lemma lookup_none:
  "table = [] \<or> addr < address (hd table) \<Longrightarrow> lookupClosestSymbol table addr = None"
  by (cases table) (auto simp: lookupClosestSymbol_takeWhile)

lemma lookup_some:
  assumes "sorted_by_address table" "table \<noteq> []" "address (hd table) \<le> addr"
  shows "\<exists>i. lookupClosestSymbol table addr = Some (table ! i) \<and> last_not_exceeding table addr i"
proof -
  let ?P = "\<lambda>s. address s \<le> addr"
  let ?tw = "takeWhile ?P table"
  have ne: "?tw \<noteq> []" using assms(2,3) by (cases table) auto
  define i where "i = length ?tw - 1"
  have il: "i < length ?tw" using ne by (simp add: i_def)
  have lt: "length ?tw \<le> length table" by (rule length_takeWhile_le)
  have nth: "?tw ! i = table ! i" using il by (rule takeWhile_nth)
  have last: "last ?tw = table ! i" using ne nth by (simp add: last_conv_nth i_def)
  have P: "?P (table ! i)" using il nth nth_mem [OF il] set_takeWhileD by metis
  have beyond: "j \<le> i" if j: "j < length table" and Pj: "?P (table ! j)" for j
  proof (rule ccontr)
    assume "\<not> j \<le> i"
    then have ge: "length ?tw \<le> j" using il by (simp add: i_def)
    then have lt': "length ?tw < length table" using j by simp
    have "\<not> ?P (table ! length ?tw)" using lt' by (rule nth_length_takeWhile)
    moreover have "address (table ! length ?tw) \<le> address (table ! j)"
      using assms(1) ge j unfolding sorted_by_address_def
      by (metis length_map lt' nth_map sorted_nth_mono)
    ultimately show False using Pj by simp
  qed
  have "lookupClosestSymbol table addr = Some (table ! i)"
    using ne last by (simp add: lookupClosestSymbol_takeWhile)
  moreover have "last_not_exceeding table addr i"
    unfolding last_not_exceeding_def using il lt P beyond by auto
  ultimately show ?thesis by blast
qed

lemma last_is_greatest:
  assumes "sorted_by_address table" "last_not_exceeding table addr i"
  shows "greatest_not_exceeding table addr (table ! i)"
  unfolding greatest_not_exceeding_def
proof (intro conjI ballI impI)
  show "table ! i \<in> set table" using assms(2) by (simp add: last_not_exceeding_def)
  show "address (table ! i) \<le> addr" using assms(2) by (simp add: last_not_exceeding_def)
  fix e' assume e': "e' \<in> set table" "address e' \<le> addr"
  then obtain j where j: "j < length table" "table ! j = e'" by (auto simp: in_set_conv_nth)
  then have "j \<le> i" using assms(2) e' by (auto simp: last_not_exceeding_def)
  then show "address e' \<le> address (table ! i)"
    using assms j unfolding sorted_by_address_def last_not_exceeding_def
    by (metis length_map nth_map sorted_nth_mono)
qed

lemma greatest_unique:
  assumes "distinct (map address table)"
    and "greatest_not_exceeding table addr e" and "greatest_not_exceeding table addr e'"
  shows "e' = e"
proof -
  have "address e' = address e"
    using assms(2,3) unfolding greatest_not_exceeding_def by (meson le_antisym)
  moreover have "inj_on address (set table)"
    using assms(1) by (simp add: distinct_map)
  ultimately show ?thesis
    using assms(2,3) unfolding greatest_not_exceeding_def by (meson inj_onD)
qed

text \<open>
  C1, as the code has it. For a table whose addresses never decrease:
  \<^item> \<^verbatim>\<open>lookupClosestSymbol\<close> returns none when the table is empty or the query is below
    the first entry's address;
  \<^item> otherwise it returns the entry at the last position whose address does not exceed
    the query (an entry whose address equals the query included), and no entry not
    exceeding the query has a greater address;
  \<^item> when no two entries share an address, that entry is the only one with the greatest
    address not exceeding the query;
  \<^item> the entry returned never has an address above the query; when the offset of the
    query from the entry's address is below \<open>2 ^ 32\<close>, the frame formatter, for frame
    \<open>k\<close> of the capture buffer holding the query, hands \<^verbatim>\<open>outputPrintf\<close> the line with
    the entry's name and that offset, as the event number \<open>k\<close> of
    \<^verbatim>\<open>outputGlobalBacktrace\<close>. (Of a greater offset \<^verbatim>\<open>%u\<close> writes the low 32 bits only;
    the theorem says nothing of that case.)
\<close>

theorem lookupClosestSymbol_sorted:
  assumes "sorted_by_address table"
  shows "(table = [] \<or> addr < address (hd table) \<longrightarrow> lookupClosestSymbol table addr = None)
    \<and> (table \<noteq> [] \<and> address (hd table) \<le> addr \<longrightarrow>
         (\<exists>i. lookupClosestSymbol table addr = Some (table ! i)
              \<and> last_not_exceeding table addr i
              \<and> greatest_not_exceeding table addr (table ! i)))
    \<and> (distinct (map address table) \<longrightarrow>
         (\<forall>e. greatest_not_exceeding table addr e \<longrightarrow> lookupClosestSymbol table addr = Some e))
    \<and> (\<forall>e. lookupClosestSymbol table addr = Some e \<longrightarrow> address e \<le> addr)
    \<and> (\<forall>e. lookupClosestSymbol table addr = Some e \<and> addr - address e < 2 ^ 32
             \<and> symbolTable (gbl_params w) = Some table
             \<and> k < nat (gbl_backtraceEntries w) \<and> stored (gbl_backtraceBuffer w) ! k = addr \<longrightarrow>
           frame_line pf w k = symbol_frame_line k e addr
           \<and> trace (outputGlobalBacktrace pf w) ! (length (trace w) + k)
               = Printf (symbol_frame_line k e addr))"
proof (intro conjI impI allI)
  assume "table = [] \<or> addr < address (hd table)"
  then show "lookupClosestSymbol table addr = None" by (rule lookup_none)
next
  assume "table \<noteq> [] \<and> address (hd table) \<le> addr"
  then obtain i where i: "lookupClosestSymbol table addr = Some (table ! i)"
      "last_not_exceeding table addr i"
    using lookup_some [OF assms] by blast
  with last_is_greatest [OF assms]
  show "\<exists>i. lookupClosestSymbol table addr = Some (table ! i)
              \<and> last_not_exceeding table addr i
              \<and> greatest_not_exceeding table addr (table ! i)"
    by blast
next
  fix e
  assume d: "distinct (map address table)" and g: "greatest_not_exceeding table addr e"
  from g have e: "e \<in> set table" "address e \<le> addr"
    by (simp_all add: greatest_not_exceeding_def)
  then have ne: "table \<noteq> []" by auto
  have "address (hd table) \<le> address e"
    using assms e(1) ne unfolding sorted_by_address_def
    by (cases table) auto
  then have "address (hd table) \<le> addr" using e(2) by simp
  then obtain i where i: "lookupClosestSymbol table addr = Some (table ! i)"
      "last_not_exceeding table addr i"
    using lookup_some [OF assms ne] by blast
  have "greatest_not_exceeding table addr (table ! i)"
    using last_is_greatest [OF assms i(2)] .
  then have "table ! i = e" using greatest_unique [OF d g] by simp
  with i(1) show "lookupClosestSymbol table addr = Some e" by simp
next
  fix e
  assume a: "lookupClosestSymbol table addr = Some e"
  have tw: "takeWhile (\<lambda>s. address s \<le> addr) table \<noteq> []"
      "e = last (takeWhile (\<lambda>s. address s \<le> addr) table)"
    using a by (auto simp: lookupClosestSymbol_takeWhile split: if_splits)
  then have "e \<in> set (takeWhile (\<lambda>s. address s \<le> addr) table)" by simp
  then show "address e \<le> addr" by (rule set_takeWhileD [THEN conjunct2])
next
  fix e
  assume a: "lookupClosestSymbol table addr = Some e \<and> addr - address e < 2 ^ 32
             \<and> symbolTable (gbl_params w) = Some table
             \<and> k < nat (gbl_backtraceEntries w) \<and> stored (gbl_backtraceBuffer w) ! k = addr"
  show fl: "frame_line pf w k = symbol_frame_line k e addr"
    using a by (simp add: frame_line_def symbol_frame_line_def printf_u_def)
  show "trace (outputGlobalBacktrace pf w) ! (length (trace w) + k)
      = Printf (symbol_frame_line k e addr)"
    using a fl by simp
qed

text \<open>
  C1 as the claim words it fails where two entries share an address: both \<open>f\<close> and \<open>g\<close>
  at \<open>0x100\<close> are entries with the greatest address not exceeding \<open>0x150\<close>, so no entry is
  the only one; the code returns \<open>g\<close>, the later of the two.
\<close>

theorem lookupClosestSymbol_not_unique:
  "sorted_by_address [\<lparr>function_c = ''f'', address = 0x100\<rparr>, \<lparr>function_c = ''g'', address = 0x100\<rparr>]
   \<and> greatest_not_exceeding
        [\<lparr>function_c = ''f'', address = 0x100\<rparr>, \<lparr>function_c = ''g'', address = 0x100\<rparr>] 0x150
        \<lparr>function_c = ''f'', address = 0x100\<rparr>
   \<and> greatest_not_exceeding
        [\<lparr>function_c = ''f'', address = 0x100\<rparr>, \<lparr>function_c = ''g'', address = 0x100\<rparr>] 0x150
        \<lparr>function_c = ''g'', address = 0x100\<rparr>
   \<and> \<lparr>function_c = ''f'', address = 0x100\<rparr> \<noteq> \<lparr>function_c = ''g'', address = 0x100\<rparr>
   \<and> lookupClosestSymbol
        [\<lparr>function_c = ''f'', address = 0x100\<rparr>, \<lparr>function_c = ''g'', address = 0x100\<rparr>] 0x150
       = Some \<lparr>function_c = ''g'', address = 0x100\<rparr>"
  by (simp add: sorted_by_address_def greatest_not_exceeding_def lookupClosestSymbol_def)

text \<open>
  The example of the spec: \<open>f\<close> at \<open>0x100\<close> and \<open>g\<close> at \<open>0x200\<close>; the queries \<open>0x150\<close>,
  \<open>0x250\<close> and \<open>0x50\<close>; and the line of frame 0 for the query \<open>0x150\<close>.
\<close>

theorem lookupClosestSymbol_sorted_witness:
  "sorted_by_address fg_table
   \<and> distinct (map address fg_table)
   \<and> lookupClosestSymbol fg_table 0x150 = Some \<lparr>function_c = ''f'', address = 0x100\<rparr>
   \<and> lookupClosestSymbol fg_table 0x250 = Some \<lparr>function_c = ''g'', address = 0x200\<rparr>
   \<and> lookupClosestSymbol fg_table 0x50 = None
   \<and> greatest_not_exceeding fg_table 0x150 \<lparr>function_c = ''f'', address = 0x100\<rparr>
   \<and> (0x150::nat) - address \<lparr>function_c = ''f'', address = 0x100\<rparr> < 2 ^ 32
   \<and> trace (outputGlobalBacktrace example_platform fg_world) ! (length (trace fg_world) + 0)
       = Printf ''*      Frame 00: f+80\<newline>''"
proof -
  have b: "(0x150::nat) - address \<lparr>function_c = ''f'', address = 0x100\<rparr> < 2 ^ 32"
    by simp
  have s: "sorted_by_address fg_table"
    by (simp add: sorted_by_address_def fg_table_def)
  have d: "distinct (map address fg_table)"
    by (simp add: fg_table_def)
  have l: "lookupClosestSymbol fg_table 0x150 = Some \<lparr>function_c = ''f'', address = 0x100\<rparr>"
    by (simp add: lookupClosestSymbol_def fg_table_def)
  have w: "symbolTable (gbl_params fg_world) = Some fg_table
      \<and> 0 < nat (gbl_backtraceEntries fg_world) \<and> stored (gbl_backtraceBuffer fg_world) ! 0 = 0x150"
    by (simp add: fg_world_def)
  have f: "symbol_frame_line 0 \<lparr>function_c = ''f'', address = 0x100\<rparr> 0x150
      = ''*      Frame 00: f+80\<newline>''"
    by (simp add: symbol_frame_line_def dec02_def dec.simps digit_def)
  from lookupClosestSymbol_sorted [OF s, of "0x150" fg_world 0 example_platform] l b w f
  have "trace (outputGlobalBacktrace example_platform fg_world) ! (length (trace fg_world) + 0)
       = Printf ''*      Frame 00: f+80\<newline>''"
    by simp
  moreover have "lookupClosestSymbol fg_table 0x250 = Some \<lparr>function_c = ''g'', address = 0x200\<rparr>"
    using lookupClosestSymbol_sorted [OF s, of "0x250"]
    by (simp add: lookupClosestSymbol_def fg_table_def)
  moreover have "lookupClosestSymbol fg_table 0x50 = None"
    using lookupClosestSymbol_sorted [OF s, of "0x50"] by (simp add: fg_table_def)
  moreover have "greatest_not_exceeding fg_table 0x150 \<lparr>function_c = ''f'', address = 0x100\<rparr>"
    by (simp add: greatest_not_exceeding_def fg_table_def)
  ultimately show ?thesis using s d l b by simp
qed

text \<open>
  Beyond the bound the line does not hold the offset: for \<open>g\<close> at \<open>0x200\<close> and a frame
  \<open>2 ^ 33\<close> bytes above it, \<^verbatim>\<open>%u\<close> writes \<open>0\<close>.
\<close>

lemma frame_line_offset_wraps:
  "frame_line example_platform
     (fg_world\<lparr>gbl_backtraceBuffer := \<lparr>slots = 5, stored = [0x200 + 2 ^ 33]\<rparr>\<rparr>) 0
     = ''*      Frame 00: g+0\<newline>''"
  by (simp add: frame_line_def fg_world_def fg_table_def lookupClosestSymbol_def printf_u_def
      dec02_def dec.simps digit_def)

section \<open>The all-threads phase\<close>

lemma bt_handler_fields [simp]:
  "trace (bt_handler pf stack w) = trace w"
  "gbl_params (bt_handler pf stack w) = gbl_params w"
  "gbl_backtraceDoneFlag (bt_handler pf stack w) = 1"
  by (simp_all add: bt_handler_def createGlobalBacktrace_def Let_def)

lemma pthread_kill_c_fields [simp]:
  "trace (pthread_kill_c pf thr signo w) = trace w @ [Pthread_kill thr signo]"
  "gbl_params (pthread_kill_c pf thr signo w) = gbl_params w"
  by (simp_all add: pthread_kill_c_def Let_def split: option.split)

lemma sleep_c_fields [simp]:
  "trace (sleep_c pf thr i w) = trace w @ [Sleep 1]"
  "gbl_params (sleep_c pf thr i w) = gbl_params w"
  by (simp_all add: sleep_c_def Let_def split: option.split)

text \<open>The wait loop only sleeps, whatever the signalled thread does.\<close>

lemma wait_loop_sleeps:
  "\<exists>k. trace (wait_loop pf thr waitTime i w) = trace w @ replicate k (Sleep 1)
     \<and> gbl_params (wait_loop pf thr waitTime i w) = gbl_params w"
proof (induction pf thr waitTime i w rule: wait_loop.induct)
  case (1 pf thr waitTime i w)
  show ?case
  proof (cases "int i < waitTime \<and> gbl_backtraceDoneFlag w = 0")
    case True
    then obtain k where
      "trace (wait_loop pf thr waitTime (Suc i) (sleep_c pf thr i w))
         = trace (sleep_c pf thr i w) @ replicate k (Sleep 1)
       \<and> gbl_params (wait_loop pf thr waitTime (Suc i) (sleep_c pf thr i w))
         = gbl_params (sleep_c pf thr i w)"
      using "1.IH" by auto
    then have "trace (wait_loop pf thr waitTime i w) = trace w @ replicate (Suc k) (Sleep 1)
       \<and> gbl_params (wait_loop pf thr waitTime i w) = gbl_params w"
      using True by (subst (1 2) wait_loop.simps) simp
    then show ?thesis by blast
  next
    case False
    then have "wait_loop pf thr waitTime i w = w"
      by (subst wait_loop.simps) auto
    then have "trace (wait_loop pf thr waitTime i w) = trace w @ replicate 0 (Sleep 1)
       \<and> gbl_params (wait_loop pf thr waitTime i w) = gbl_params w"
      by simp
    then show ?thesis by blast
  qed
qed

lemma wait_loop_params [simp]:
  "gbl_params (wait_loop pf thr waitTime i w) = gbl_params w"
  using wait_loop_sleeps by blast

text \<open>
  When the thread does not answer in what is left of the budget, the loop sleeps all
  of it and the flag is still clear.
\<close>

lemma wait_loop_timeout:
  assumes "gbl_backtraceDoneFlag w = 0"
    and "case respond pf thr of None \<Rightarrow> True | Some (d, stack) \<Rightarrow> d \<le> i \<or> nat waitTime < d"
  shows "trace (wait_loop pf thr waitTime i w) = trace w @ replicate (nat waitTime - i) (Sleep 1)
     \<and> gbl_backtraceDoneFlag (wait_loop pf thr waitTime i w) = 0"
  using assms
proof (induction pf thr waitTime i w rule: wait_loop.induct)
  case (1 pf thr waitTime i w)
  show ?case
  proof (cases "int i < waitTime")
    case True
    have quiet: "sleep_c pf thr i w = w\<lparr>trace := trace w @ [Sleep 1]\<rparr>"
      using "1.prems"(2) True by (auto simp add: sleep_c_def Let_def split: option.split)
    have flag: "gbl_backtraceDoneFlag (sleep_c pf thr i w) = 0"
      using "1.prems"(1) by (simp add: quiet)
    have later: "case respond pf thr of None \<Rightarrow> True
        | Some (d, stack) \<Rightarrow> d \<le> Suc i \<or> nat waitTime < d"
      using "1.prems"(2) by (auto split: option.split)
    have ih: "trace (wait_loop pf thr waitTime (Suc i) (sleep_c pf thr i w))
         = trace (sleep_c pf thr i w) @ replicate (nat waitTime - Suc i) (Sleep 1)
       \<and> gbl_backtraceDoneFlag (wait_loop pf thr waitTime (Suc i) (sleep_c pf thr i w)) = 0"
      using "1.IH" [OF True _ flag later] "1.prems"(1) by simp
    have step: "wait_loop pf thr waitTime i w
        = wait_loop pf thr waitTime (Suc i) (sleep_c pf thr i w)"
      using True "1.prems"(1) by (subst wait_loop.simps) simp
    have "Suc (nat waitTime - Suc i) = nat waitTime - i" using True by linarith
    then have "replicate (nat waitTime - i) (Sleep 1)
        = Sleep 1 # replicate (nat waitTime - Suc i) (Sleep 1)"
      by (metis replicate_Suc)
    then show ?thesis using ih step by simp
  next
    case False
    then have "wait_loop pf thr waitTime i w = w"
      by (subst wait_loop.simps) simp
    moreover have "nat waitTime - i = 0" using False by linarith
    ultimately show ?thesis using "1.prems"(1) by simp
  qed
qed

lemma lines_not_separator [simp]:
  "frame_line pf w i \<noteq> ''*\<newline>''"
  "backtrace_line pf probe \<noteq> ''*\<newline>''"
  "error_line pf probe \<noteq> ''*\<newline>''"
  by (simp_all add: frame_line_def backtrace_line_def error_line_def Let_def split: option.split)

lemma is_section_shape:
  assumes "list_all (\<lambda>e. \<not> is_kill e \<and> e \<noteq> separator) body"
  shows "is_section probe (kill_of probe # body @ [separator])"
  using assms by (simp add: is_section_def butlast_append)

text \<open>What the phase does for a node whose thread does not answer in time.\<close>

lemma backtrace_thread_timeout:
  assumes "timed_out pf (threadWaitTime (gbl_params w)) probe"
  shows "trace (backtrace_thread pf probe w)
     = trace w @ [kill_of probe] @ replicate (nat (threadWaitTime (gbl_params w))) (Sleep 1)
         @ [Printf (error_line pf probe), separator]"
proof -
  let ?w1 = "w\<lparr>gbl_backtraceDoneFlag := 0\<rparr>"
  let ?w2 = "pthread_kill_c pf (thread probe) (backtraceSignal probe) ?w1"
  let ?W = "threadWaitTime (gbl_params w)"
  have quiet: "?w2 = ?w1\<lparr>trace := trace ?w1 @ [Pthread_kill (thread probe) (backtraceSignal probe)]\<rparr>"
    using assms by (auto simp add: pthread_kill_c_def timed_out_def Let_def split: option.split)
  have flag: "gbl_backtraceDoneFlag ?w2 = 0" by (subst quiet) simp
  have later: "case respond pf (thread probe) of None \<Rightarrow> True
      | Some (d, stack) \<Rightarrow> d \<le> 0 \<or> nat ?W < d"
    using assms by (auto simp add: timed_out_def split: option.split)
  have wl: "trace (wait_loop pf (thread probe) ?W 0 ?w2) = trace ?w2 @ replicate (nat ?W - 0) (Sleep 1)
     \<and> gbl_backtraceDoneFlag (wait_loop pf (thread probe) ?W 0 ?w2) = 0"
    using wait_loop_timeout [OF flag later] .
  show ?thesis
    using wl by (simp add: backtrace_thread_def Let_def kill_of_def separator_def)
qed

text \<open>What the phase does for any node is a section.\<close>

lemma backtrace_thread_section:
  "\<exists>sec. trace (backtrace_thread pf probe w) = trace w @ sec \<and> is_section probe sec"
proof -
  let ?w1 = "w\<lparr>gbl_backtraceDoneFlag := 0\<rparr>"
  let ?w2 = "pthread_kill_c pf (thread probe) (backtraceSignal probe) ?w1"
  let ?W = "threadWaitTime (gbl_params ?w2)"
  let ?w3 = "wait_loop pf (thread probe) ?W 0 ?w2"
  obtain k where k: "trace ?w3 = trace ?w2 @ replicate k (Sleep 1)"
    using wait_loop_sleeps by blast
  let ?w4 = "if gbl_backtraceDoneFlag ?w3 \<noteq> 0
                then outputGlobalBacktrace pf (snd (outputPrintf pf (backtrace_line pf probe) ?w3))
                else snd (outputPrintf pf (error_line pf probe) ?w3)"
  obtain ls where ls: "trace ?w4 = trace ?w3 @ map Printf ls" "\<forall>l \<in> set ls. l \<noteq> ''*\<newline>''"
  proof (cases "gbl_backtraceDoneFlag ?w3 \<noteq> 0")
    case True
    let ?v = "snd (outputPrintf pf (backtrace_line pf probe) ?w3)"
    have "trace ?w4 = trace ?w3 @ map Printf (backtrace_line pf probe
            # map (frame_line pf ?v) [0 ..< nat (gbl_backtraceEntries ?v)])"
      using True by (simp add: comp_def)
    moreover have "\<forall>l \<in> set (backtrace_line pf probe
            # map (frame_line pf ?v) [0 ..< nat (gbl_backtraceEntries ?v)]). l \<noteq> ''*\<newline>''"
      by auto
    ultimately show ?thesis using that by blast
  next
    case False
    then have "trace ?w4 = trace ?w3 @ map Printf [error_line pf probe]" by simp
    moreover have "\<forall>l \<in> set [error_line pf probe]. l \<noteq> ''*\<newline>''" by simp
    ultimately show ?thesis using that by blast
  qed
  let ?body = "replicate k (Sleep 1) @ map Printf ls"
  have body: "list_all (\<lambda>e. \<not> is_kill e \<and> e \<noteq> separator) ?body"
    using ls(2) by (auto simp add: list_all_iff separator_def)
  have "trace (backtrace_thread pf probe w) = trace ?w4 @ [separator]"
    by (simp add: backtrace_thread_def Let_def separator_def)
  then have "trace (backtrace_thread pf probe w) = trace w @ (kill_of probe # ?body @ [separator])"
    using ls(1) k by (simp add: kill_of_def)
  then show ?thesis using is_section_shape [OF body] by blast
qed

lemma backtrace_thread_params [simp]:
  "gbl_params (backtrace_thread pf probe w) = gbl_params w"
  by (simp add: backtrace_thread_def Let_def)

lemma loop_sections:
  "\<exists>secs. trace (outputBacktraceThreads_loop pf nodes w) = trace w @ concat secs
     \<and> list_all2 is_section nodes secs
     \<and> gbl_params (outputBacktraceThreads_loop pf nodes w) = gbl_params w"
proof (induction nodes arbitrary: w)
  case Nil
  show ?case by simp
next
  case (Cons probe rest)
  obtain sec where sec: "trace (backtrace_thread pf probe w) = trace w @ sec" "is_section probe sec"
    using backtrace_thread_section by blast
  obtain secs where secs:
      "trace (outputBacktraceThreads_loop pf rest (backtrace_thread pf probe w))
         = trace (backtrace_thread pf probe w) @ concat secs"
      "list_all2 is_section rest secs"
      "gbl_params (outputBacktraceThreads_loop pf rest (backtrace_thread pf probe w))
         = gbl_params (backtrace_thread pf probe w)"
    using Cons.IH by blast
  have "trace (outputBacktraceThreads_loop pf (probe # rest) w) = trace w @ concat (sec # secs)
     \<and> list_all2 is_section (probe # rest) (sec # secs)
     \<and> gbl_params (outputBacktraceThreads_loop pf (probe # rest) w) = gbl_params w"
    using sec secs by simp
  then show ?case by blast
qed

lemma loop_append:
  "outputBacktraceThreads_loop pf (xs @ ys) w
     = outputBacktraceThreads_loop pf ys (outputBacktraceThreads_loop pf xs w)"
  by (induction xs arbitrary: w) simp_all

text \<open>A section holds one signal, that of its node, and one separator.\<close>

lemma section_split:
  assumes "is_section probe sec"
  shows "sec = kill_of probe # butlast (tl sec) @ [separator]"
proof -
  from assms have l: "2 \<le> length sec" and h: "hd sec = kill_of probe" and la: "last sec = separator"
    by (simp_all add: is_section_def)
  from l have ne: "sec \<noteq> []" "tl sec \<noteq> []" by (cases sec; cases "tl sec"; auto)+
  then have "sec = hd sec # butlast (tl sec) @ [last sec]"
    by (metis append_butlast_last_id last_tl list.collapse)
  then show ?thesis using h la by simp
qed

lemma section_kills:
  assumes "is_section probe sec"
  shows "filter is_kill sec = [kill_of probe]"
proof -
  have "filter is_kill (butlast (tl sec)) = []"
    using assms by (auto simp add: is_section_def list_all_iff filter_empty_conv)
  then have "filter is_kill (kill_of probe # butlast (tl sec) @ [separator]) = [kill_of probe]"
    by (simp add: kill_of_def separator_def)
  then show ?thesis using section_split [OF assms] by simp
qed

lemma section_separators:
  assumes "is_section probe sec"
  shows "filter (\<lambda>e. e = separator) sec = [separator]"
proof -
  have "filter (\<lambda>e. e = separator) (butlast (tl sec)) = []"
    using assms by (auto simp add: is_section_def list_all_iff filter_empty_conv)
  then have "filter (\<lambda>e. e = separator) (kill_of probe # butlast (tl sec) @ [separator])
      = [separator]"
    by (simp add: kill_of_def separator_def)
  then show ?thesis using section_split [OF assms] by simp
qed

lemma sections_kills:
  "list_all2 is_section nodes secs \<Longrightarrow> filter is_kill (concat secs) = map kill_of nodes"
  by (induction nodes secs rule: list_all2_induct) (simp_all add: section_kills)

lemma sections_separators:
  "list_all2 is_section nodes secs \<Longrightarrow>
     length (filter (\<lambda>e. e = separator) (concat secs)) = length nodes"
  by (induction nodes secs rule: list_all2_induct) (simp_all add: section_separators)

lemma error_line_text:
  "sublist ''unable to get backtrace'' (error_line pf probe)"
  "sublist (threadName probe) (error_line pf probe)"
proof -
  have "error_line pf probe = ''*  Error: '' @ ''unable to get backtrace'' @
      ('' of '' @ dquote @ threadName probe @ dquote @ '' (0x''
         @ pointer_text pf (thread probe) @ '')\<newline>'')"
    by (simp add: error_line_def)
  then show "sublist ''unable to get backtrace'' (error_line pf probe)"
    by (metis sublist_appendI)
  have "error_line pf probe = (''*  Error: unable to get backtrace of '' @ dquote)
      @ threadName probe @ (dquote @ '' (0x'' @ pointer_text pf (thread probe) @ '')\<newline>'')"
    by (simp add: error_line_def)
  then show "sublist (threadName probe) (error_line pf probe)"
    by (metis sublist_appendI)
qed

lemma register_all_threads:
  "map thread (ThreadList (register_all pf reqs w)) = rev (map fst reqs) @ map thread (ThreadList w)"
  by (induction reqs arbitrary: w)
     (auto simp add: eCrash_RegisterThread_def addThreadToList_def signal_c_def Let_def)

text \<open>The registry and the wait budget of the process with two threads.\<close>

lemma two_threads_registry:
  "ThreadList two_threads =
     [\<lparr>threadName = ''Thread 2'', thread = 2, backtraceSignal = 12, oldHandler = Some Addr_bt_handler\<rparr>,
      \<lparr>threadName = ''Thread 1'', thread = 1, backtraceSignal = 12, oldHandler = Some SIG_DFL\<rparr>]"
  by code_simp

lemma two_threads_wait: "threadWaitTime (gbl_params two_threads) = 10"
  by code_simp

text \<open>
  C7. Let a node of the registry be one whose thread does not set the completion flag
  within the wait budget. Then the events of the all-threads phase are: the sections of
  the nodes before it; the signal to its thread, one second slept for each second of the
  budget, the error line, the separator line; and the sections of all the nodes after
  it, the first of which starts with the signal to the next node's thread. The error
  line contains the text \<open>unable to get backtrace\<close> and the name of the thread. A line is
  emitted when it is handed to \<^verbatim>\<open>outputPrintf\<close> (the event \<open>Printf\<close>); what the sink writes
  of it is the matter of \<^verbatim>\<open>outputPrintf\<close>.
\<close>

theorem timeout_does_not_stop_traversal:
  assumes "ThreadList w = before @ probe # after"
    and "timed_out pf (threadWaitTime (gbl_params w)) probe"
  shows "\<exists>secs1 secs2.
      trace (outputBacktraceThreads pf w)
        = trace w @ concat secs1
            @ [kill_of probe] @ replicate (nat (threadWaitTime (gbl_params w))) (Sleep 1)
            @ [Printf (error_line pf probe), separator]
            @ concat secs2
      \<and> list_all2 is_section before secs1
      \<and> list_all2 is_section after secs2
      \<and> filter is_kill (concat secs2) = map kill_of after
      \<and> (after \<noteq> [] \<longrightarrow> hd (concat secs2) = kill_of (hd after))
      \<and> sublist ''unable to get backtrace'' (error_line pf probe)
      \<and> sublist (threadName probe) (error_line pf probe)"
proof -
  let ?w1 = "outputBacktraceThreads_loop pf before w"
  let ?w2 = "backtrace_thread pf probe ?w1"
  obtain secs1 where s1: "trace ?w1 = trace w @ concat secs1" "list_all2 is_section before secs1"
      "gbl_params ?w1 = gbl_params w"
    using loop_sections by blast
  have t: "timed_out pf (threadWaitTime (gbl_params ?w1)) probe"
    using assms(2) s1(3) by simp
  have s: "trace ?w2 = trace ?w1 @ [kill_of probe]
      @ replicate (nat (threadWaitTime (gbl_params w))) (Sleep 1)
      @ [Printf (error_line pf probe), separator]"
    using backtrace_thread_timeout [OF t] s1(3) by simp
  obtain secs2 where s2: "trace (outputBacktraceThreads_loop pf after ?w2) = trace ?w2 @ concat secs2"
      "list_all2 is_section after secs2"
    using loop_sections by blast
  have all: "outputBacktraceThreads pf w = outputBacktraceThreads_loop pf after ?w2"
    by (simp add: outputBacktraceThreads_def assms(1) loop_append)
  have k: "filter is_kill (concat secs2) = map kill_of after"
    using s2(2) by (rule sections_kills)
  have h: "after \<noteq> [] \<longrightarrow> hd (concat secs2) = kill_of (hd after)"
  proof
    assume "after \<noteq> []"
    then obtain n ns where a: "after = n # ns" by (cases after) auto
    then obtain sec rest where r: "secs2 = sec # rest" "is_section n sec"
      using s2(2) by (auto simp add: list_all2_Cons1)
    then have "sec \<noteq> []" "hd sec = kill_of n" by (auto simp add: is_section_def)
    then show "hd (concat secs2) = kill_of (hd after)" using a r by simp
  qed
  have "trace (outputBacktraceThreads pf w)
        = trace w @ concat secs1
            @ [kill_of probe] @ replicate (nat (threadWaitTime (gbl_params w))) (Sleep 1)
            @ [Printf (error_line pf probe), separator]
            @ concat secs2"
    using all s1(1) s s2(1) by simp
  then show ?thesis
    using s1(2) s2(2) k h error_line_text by blast
qed

text \<open>
  The same for the process with two threads: thread 2, registered last, is at the head
  of the registry and never answers; the budget is ten seconds; thread 1 is signalled
  next.
\<close>

theorem timeout_witness:
  "ThreadList two_threads =
     [] @ \<lparr>threadName = ''Thread 2'', thread = 2, backtraceSignal = 12, oldHandler = Some Addr_bt_handler\<rparr>
        # [\<lparr>threadName = ''Thread 1'', thread = 1, backtraceSignal = 12, oldHandler = Some SIG_DFL\<rparr>]
   \<and> timed_out answering_platform (threadWaitTime (gbl_params two_threads))
        \<lparr>threadName = ''Thread 2'', thread = 2, backtraceSignal = 12, oldHandler = Some Addr_bt_handler\<rparr>
   \<and> (\<exists>secs2.
        trace (outputBacktraceThreads answering_platform two_threads)
          = trace two_threads @ [Pthread_kill 2 12] @ replicate 10 (Sleep 1)
              @ [Printf (''*  Error: unable to get backtrace of '' @ dquote @ ''Thread 2'' @ dquote
                           @ '' (0x0x2)\<newline>''),
                 Printf ''*\<newline>'']
              @ concat secs2
        \<and> hd (concat secs2) = Pthread_kill 1 12)"
proof -
  let ?n2 = "\<lparr>threadName = ''Thread 2'', thread = 2, backtraceSignal = 12,
               oldHandler = Some Addr_bt_handler\<rparr>"
  let ?n1 = "\<lparr>threadName = ''Thread 1'', thread = 1, backtraceSignal = 12,
               oldHandler = Some SIG_DFL\<rparr>"
  have r: "ThreadList two_threads = [] @ ?n2 # [?n1]"
    by (simp add: two_threads_registry)
  have t: "timed_out answering_platform (threadWaitTime (gbl_params two_threads)) ?n2"
    by (simp add: timed_out_def answering_platform_def)
  have e: "error_line answering_platform ?n2
      = ''*  Error: unable to get backtrace of '' @ dquote @ ''Thread 2'' @ dquote @ '' (0x0x2)\<newline>''"
    by (simp add: error_line_def answering_platform_def example_platform_def dec.simps digit_def)
  from timeout_does_not_stop_traversal [OF r t]
  obtain secs1 secs2 where s:
      "trace (outputBacktraceThreads answering_platform two_threads)
        = trace two_threads @ concat secs1
            @ [kill_of ?n2] @ replicate (nat (threadWaitTime (gbl_params two_threads))) (Sleep 1)
            @ [Printf (error_line answering_platform ?n2), separator]
            @ concat secs2"
      "list_all2 is_section [] secs1"
      "[?n1] \<noteq> [] \<longrightarrow> hd (concat secs2) = kill_of (hd [?n1])"
    by blast
  from s(2) have "secs1 = []" by simp
  with s(1,3) e have "trace (outputBacktraceThreads answering_platform two_threads)
          = trace two_threads @ [Pthread_kill 2 12] @ replicate 10 (Sleep 1)
              @ [Printf (''*  Error: unable to get backtrace of '' @ dquote @ ''Thread 2'' @ dquote
                           @ '' (0x0x2)\<newline>''),
                 Printf ''*\<newline>'']
              @ concat secs2
        \<and> hd (concat secs2) = Pthread_kill 1 12"
    by (simp add: kill_of_def separator_def two_threads_wait)
  then show ?thesis using r t by blast
qed

text \<open>
  C8. The events of the all-threads phase are the concatenation of as many sections as
  the registry has nodes, one per node in the order of the registry from its head: each
  starts with the signal to its node's thread, ends with the separator line, and has no
  other signal or separator, so the phase emits one separator per node. A registration
  puts its node at the head of the registry, so after threads register one after the
  other the registry, and with it the order of the sections, is the reverse of the order
  of registration, the thread registered last coming first.
\<close>

theorem all_threads_sections:
  "(\<exists>secs. trace (outputBacktraceThreads pf w) = trace w @ concat secs
       \<and> length secs = length (ThreadList w)
       \<and> list_all2 is_section (ThreadList w) secs
       \<and> length (filter (\<lambda>e. e = separator) (concat secs)) = length (ThreadList w))
   \<and> ThreadList (snd (eCrash_RegisterThread pf True self name signo w))
       = \<lparr>threadName = name, thread = self,
          backtraceSignal = (if signo = 0 then defaultBacktraceSignal (gbl_params w) else signo),
          oldHandler = fst (signal_c pf
                              (if signo = 0 then defaultBacktraceSignal (gbl_params w) else signo)
                              (Some Addr_bt_handler) w)\<rparr> # ThreadList w
   \<and> map thread (ThreadList (register_all pf reqs w)) = rev (map fst reqs) @ map thread (ThreadList w)"
proof (intro conjI)
  obtain secs where secs: "trace (outputBacktraceThreads pf w) = trace w @ concat secs"
      "list_all2 is_section (ThreadList w) secs"
    unfolding outputBacktraceThreads_def using loop_sections by blast
  have "length secs = length (ThreadList w)"
    using secs(2) by (simp add: list_all2_lengthD)
  moreover have "length (filter (\<lambda>e. e = separator) (concat secs)) = length (ThreadList w)"
    using secs(2) by (rule sections_separators)
  ultimately show "\<exists>secs. trace (outputBacktraceThreads pf w) = trace w @ concat secs
       \<and> length secs = length (ThreadList w)
       \<and> list_all2 is_section (ThreadList w) secs
       \<and> length (filter (\<lambda>e. e = separator) (concat secs)) = length (ThreadList w)"
    using secs by blast
  show "ThreadList (snd (eCrash_RegisterThread pf True self name signo w))
       = \<lparr>threadName = name, thread = self,
          backtraceSignal = (if signo = 0 then defaultBacktraceSignal (gbl_params w) else signo),
          oldHandler = fst (signal_c pf
                              (if signo = 0 then defaultBacktraceSignal (gbl_params w) else signo)
                              (Some Addr_bt_handler) w)\<rparr> # ThreadList w"
    by (simp add: eCrash_RegisterThread_def addThreadToList_def signal_c_def Let_def)
  show "map thread (ThreadList (register_all pf reqs w))
      = rev (map fst reqs) @ map thread (ThreadList w)"
    by (rule register_all_threads)
qed

text \<open>
  The process with two threads, thread 1 registered first: the phase visits thread 2,
  which never answers, then thread 1, which answers after two seconds with a stack of
  two frames; two sections, two separators.
\<close>

lemma two_threads_trace:
  "trace (outputBacktraceThreads answering_platform two_threads)
       = [Pthread_kill 2 12] @ replicate 10 (Sleep 1)
         @ [Printf (''*  Error: unable to get backtrace of '' @ dquote @ ''Thread 2'' @ dquote
                      @ '' (0x0x2)\<newline>''),
            Printf ''*\<newline>'']
         @ [Pthread_kill 1 12, Sleep 1, Sleep 1,
            Printf (''*  Backtrace of '' @ dquote @ ''Thread 1'' @ dquote @ '' (0x0x1)\<newline>''),
            Printf ''*      Frame 00: f+80\<newline>'', Printf ''*      Frame 01: g+80\<newline>'',
            Printf ''*\<newline>'']"
  by code_simp

theorem all_threads_sections_witness:
  "map thread (ThreadList two_threads) = [2, 1]
   \<and> trace (outputBacktraceThreads answering_platform two_threads)
       = [Pthread_kill 2 12] @ replicate 10 (Sleep 1)
         @ [Printf (''*  Error: unable to get backtrace of '' @ dquote @ ''Thread 2'' @ dquote
                      @ '' (0x0x2)\<newline>''),
            Printf ''*\<newline>'']
         @ [Pthread_kill 1 12, Sleep 1, Sleep 1,
            Printf (''*  Backtrace of '' @ dquote @ ''Thread 1'' @ dquote @ '' (0x0x1)\<newline>''),
            Printf ''*      Frame 00: f+80\<newline>'', Printf ''*      Frame 01: g+80\<newline>'',
            Printf ''*\<newline>'']
   \<and> (\<exists>secs. trace (outputBacktraceThreads answering_platform two_threads)
          = trace two_threads @ concat secs \<and> length secs = 2
          \<and> length (filter (\<lambda>e. e = separator) (concat secs)) = 2)"
proof -
  have len: "length (ThreadList two_threads) = 2"
    by (simp add: two_threads_registry)
  from all_threads_sections [of answering_platform two_threads]
  obtain secs where "trace (outputBacktraceThreads answering_platform two_threads)
          = trace two_threads @ concat secs"
      "length secs = length (ThreadList two_threads)"
      "length (filter (\<lambda>e. e = separator) (concat secs)) = length (ThreadList two_threads)"
    by blast
  then have "\<exists>secs. trace (outputBacktraceThreads answering_platform two_threads)
          = trace two_threads @ concat secs \<and> length secs = 2
          \<and> length (filter (\<lambda>e. e = separator) (concat secs)) = 2"
    using len by metis
  moreover have "map thread (ThreadList two_threads) = [2, 1]"
    by (simp add: two_threads_registry)
  ultimately show ?thesis using two_threads_trace by blast
qed

end
